theory Spec2Isabelle
  imports Complex_Main "HOL-Library.Word"
begin

section \<open>The image cropping service (src/main.py)\<close>

text \<open>
  The repository is one FastAPI handler, \<^verbatim>\<open>crop_image\<close>, which takes an uploaded
  file and two optional form fields, decodes the image, resolves a split row, crops the
  image into a header and a body, encodes both and returns them in a zip archive.
  The handler is embedded as a function from its inputs to either the exception it
  raises or the response it returns. The library calls it makes (Pillow's decoder and
  encoder, the clock read by \<^verbatim>\<open>zipfile\<close>, \<^verbatim>\<open>os.path.splitext\<close>, the text of an exception)
  are fields of an environment record, so that every theorem holds for any behaviour
  of the libraries.
\<close>

subsection \<open>Python values\<close>

type_synonym bytes = "8 word list"

text \<open>
  Exceptions. \<^verbatim>\<open>HTTPException(status_code, detail)\<close> is the framework's exception; every
  other exception is kept with its class name and its message (\<^verbatim>\<open>str(e)\<close>).
\<close>

datatype py_error = PyError string string

datatype exc = HTTPException int string | Error py_error

text \<open>
  Python's \<^verbatim>\<open>float\<close> is an IEEE 754 double. A finite double is a rational number; the
  sign of zero is not kept, since the handler only compares, multiplies and truncates.
\<close>

datatype pyfloat = Finite rat | PosInf | NegInf | NaN

text \<open>Rounding to the nearest integer, ties to even.\<close>

definition round_half_even :: "rat \<Rightarrow> int" where
  "round_half_even x =
     (let f = \<lfloor>x\<rfloor>; d = x - of_int f
      in if d < 1 / 2 then f
         else if 1 / 2 < d then f + 1
         else if even f then f else f + 1)"

text \<open>The number of binary digits of a positive integer (Python's \<^verbatim>\<open>int.bit_length\<close>).\<close>

function bit_length :: "int \<Rightarrow> int" where
  "bit_length n = (if 0 < n then 1 + bit_length (n div 2) else 0)"
  by pat_completeness auto
termination
  by (relation "measure nat") auto

text \<open>\<open>ilog2 a\<close> is the integer \<open>e\<close> with \<open>2 ^ e \<le> a < 2 ^ (e + 1)\<close>, for \<open>a > 0\<close>.\<close>

definition ilog2 :: "rat \<Rightarrow> int" where
  "ilog2 a =
     (let k = bit_length (fst (quotient_of a)) - bit_length (snd (quotient_of a))
      in if 2 powi k \<le> a then k else k - 1)"

text \<open>
  The double nearest to a rational: 53 bits of precision, the least exponent of a
  subnormal is -1074, and a result of 2 ^ 1024 or more is an infinity.
\<close>

definition round_double :: "rat \<Rightarrow> pyfloat" where
  "round_double q =
     (if q = 0 then Finite 0
      else
        let a = \<bar>q\<bar>;
            ex = max (ilog2 a - 52) (- 1074);
            r = of_int (round_half_even (a / (2 powi ex))) * (2 powi ex)
        in if 2 ^ 1024 \<le> r then (if 0 < q then PosInf else NegInf)
           else Finite (if 0 < q then r else - r))"

text \<open>\<^verbatim>\<open>a < b\<close> on floats: false whenever an operand is NaN.\<close>

fun float_less :: "pyfloat \<Rightarrow> pyfloat \<Rightarrow> bool" where
  "float_less NaN _ = False"
| "float_less _ NaN = False"
| "float_less (Finite a) (Finite b) = (a < b)"
| "float_less NegInf NegInf = False"
| "float_less NegInf _ = True"
| "float_less _ NegInf = False"
| "float_less PosInf _ = False"
| "float_less _ PosInf = True"

text \<open>\<^verbatim>\<open>a * b\<close> on floats.\<close>

fun float_neg :: "pyfloat \<Rightarrow> pyfloat" where
  "float_neg (Finite a) = Finite (- a)"
| "float_neg PosInf = NegInf"
| "float_neg NegInf = PosInf"
| "float_neg NaN = NaN"

fun float_mul :: "pyfloat \<Rightarrow> pyfloat \<Rightarrow> pyfloat" where
  "float_mul NaN _ = NaN"
| "float_mul _ NaN = NaN"
| "float_mul (Finite a) (Finite b) = round_double (a * b)"
| "float_mul (Finite a) y = (if a = 0 then NaN else if 0 < a then y else float_neg y)"
| "float_mul x (Finite b) = (if b = 0 then NaN else if 0 < b then x else float_neg x)"
| "float_mul PosInf y = y"
| "float_mul NegInf y = float_neg y"

text \<open>
  \<^verbatim>\<open>height * split_percentage\<close> with an \<^verbatim>\<open>int\<close> on the left: the integer is converted to a
  double first (correctly rounded; \<^verbatim>\<open>OverflowError\<close> when it is too large), then the two
  doubles are multiplied.
\<close>

definition int_mul_float :: "int \<Rightarrow> pyfloat \<Rightarrow> py_error + pyfloat" where
  "int_mul_float n x =
     (case round_double (of_int n) of
        Finite a \<Rightarrow> Inr (float_mul (Finite a) x)
      | _ \<Rightarrow> Inl (PyError ''OverflowError'' ''int too large to convert to float''))"

text \<open>\<^verbatim>\<open>int(x)\<close> on a float truncates towards zero and raises on NaN and the infinities.\<close>

definition truncate_rat :: "rat \<Rightarrow> int" where
  "truncate_rat q = (if 0 \<le> q then \<lfloor>q\<rfloor> else \<lceil>q\<rceil>)"

fun int_of_float :: "pyfloat \<Rightarrow> py_error + int" where
  "int_of_float (Finite q) = Inr (truncate_rat q)"
| "int_of_float NaN = Inl (PyError ''ValueError'' ''cannot convert float NaN to integer'')"
| "int_of_float _ = Inl (PyError ''OverflowError'' ''cannot convert float infinity to integer'')"

text \<open>\<^verbatim>\<open>str(n)\<close> for an integer, as the f-string of line 48 prints it.\<close>

fun str_nat :: "nat \<Rightarrow> string" where
  "str_nat n =
     (if n < 10 then [''0123456789'' ! n]
      else str_nat (n div 10) @ [''0123456789'' ! (n mod 10)])"

definition str_int :: "int \<Rightarrow> string" where
  "str_int i = (if i < 0 then CHR ''-'' # str_nat (nat (- i)) else str_nat (nat i))"

text \<open>\<^verbatim>\<open>s.startswith(p)\<close> and \<^verbatim>\<open>s.lower()\<close> (on the ASCII letters, all that occur here).\<close>

definition startswith :: "string \<Rightarrow> string \<Rightarrow> bool" where
  "startswith s p = (take (length p) s = p)"

definition lower_char :: "char \<Rightarrow> char" where
  "lower_char c =
     (if 65 \<le> (of_char c :: nat) \<and> (of_char c :: nat) \<le> 90
      then char_of ((of_char c :: nat) + 32) else c)"

definition lower :: "string \<Rightarrow> string" where
  "lower s = map lower_char s"

subsection \<open>Images, archives, requests and responses\<close>

text \<open>
  A decoded Pillow image: its mode, its size and its pixels. \<^verbatim>\<open>image.size\<close> is the
  pair \<open>(width, height)\<close>.
\<close>

record image =
  mode :: string
  width :: int
  height :: int
  getpixel :: "int \<times> int \<Rightarrow> nat list"

text \<open>
  \<^verbatim>\<open>image.crop((left, upper, right, lower))\<close>: a new image of \<open>right - left\<close> columns and
  \<open>lower - upper\<close> rows whose pixel \<open>(x, y)\<close> is the source's pixel
  \<open>(x + left, y + upper)\<close>. The source image is not changed. Both boxes the handler
  passes lie inside the image.
\<close>

definition crop :: "image \<Rightarrow> int \<times> int \<times> int \<times> int \<Rightarrow> image" where
  "crop im box =
     (case box of (left, upper, right, bottom) \<Rightarrow>
        \<lparr>mode = mode im, width = right - left, height = bottom - upper,
         getpixel = (\<lambda>(x, y). getpixel im (x + left, y + upper))\<rparr>)"

text \<open>
  A zip archive being written is the list of its entries. \<^verbatim>\<open>writestr(name, data)\<close>
  appends an entry that carries the name, the local time read at the call, the
  archive's compression method and the data.
\<close>

type_synonym date_time = "nat \<times> nat \<times> nat \<times> nat \<times> nat \<times> nat"

datatype compression = ZIP_STORED | ZIP_DEFLATED

record zip_entry =
  entry_name :: string
  entry_time :: date_time
  entry_compression :: compression
  entry_data :: bytes

definition writestr :: "compression \<Rightarrow> date_time \<Rightarrow> zip_entry list \<Rightarrow> string \<Rightarrow> bytes \<Rightarrow> zip_entry list" where
  "writestr c now zip_file name data =
     zip_file @ [\<lparr>entry_name = name, entry_time = now, entry_compression = c, entry_data = data\<rparr>]"

text \<open>The uploaded file: \<^verbatim>\<open>file.filename\<close>, \<^verbatim>\<open>file.content_type\<close> (both may be \<^verbatim>\<open>None\<close>) and
  the bytes that \<^verbatim>\<open>file.read()\<close> returns.\<close>

record upload_file =
  filename :: "string option"
  content_type :: "string option"
  file_data :: bytes

text \<open>The \<^verbatim>\<open>StreamingResponse\<close>: its body is the archive that was written.\<close>

record streaming_response =
  body :: "zip_entry list"
  media_type :: string
  headers :: "(string \<times> string) list"

text \<open>
  The libraries the handler calls:
  \<^item> \<open>image_open\<close> is \<^verbatim>\<open>Image.open(io.BytesIO(data))\<close>, which raises on bytes that are not an image;
  \<^item> \<open>image_save\<close> is \<^verbatim>\<open>image.save(buffer, format=...)\<close> followed by \<^verbatim>\<open>buffer.getvalue()\<close>;
  \<^item> \<open>localtime k\<close> is the local time at the \<open>k\<close>-th entry written to the archive;
  \<^item> \<open>splitext_root\<close> is \<^verbatim>\<open>os.path.splitext(name)[0]\<close>;
  \<^item> \<open>http_exception_str\<close> is \<^verbatim>\<open>str(e)\<close> for an \<^verbatim>\<open>HTTPException\<close> (it depends on the
    version of the framework).
\<close>

record env =
  image_open :: "bytes \<Rightarrow> py_error + image"
  image_save :: "image \<Rightarrow> string \<Rightarrow> py_error + bytes"
  localtime :: "nat \<Rightarrow> date_time"
  splitext_root :: "string \<Rightarrow> string"
  http_exception_str :: "int \<Rightarrow> string \<Rightarrow> string"

definition exc_str :: "env \<Rightarrow> exc \<Rightarrow> string" where
  "exc_str e x =
     (case x of HTTPException s d \<Rightarrow> http_exception_str e s d | Error (PyError c m) \<Rightarrow> m)"

subsection \<open>The handler\<close>

text \<open>The \<^verbatim>\<open>detail\<close> texts of lines 30, 33, 48, 55 and 66; the letters with an accent are
  written by their code points.\<close>

definition detail_not_image :: string where
  "detail_not_image = ''El archivo debe ser una imagen''"

definition detail_not_png_jpg :: string where
  "detail_not_png_jpg = ''Solo se permiten archivos PNG y JPG''"

definition detail_split_point :: "int \<Rightarrow> string" where
  "detail_split_point h =
     ''El punto de divisi'' @ [CHR 0xF3] @ ''n debe estar entre 0 y '' @ str_int (h - 1)
       @ '' p'' @ [CHR 0xED] @ ''xeles''"

definition detail_percentage :: string where
  "detail_percentage = ''El porcentaje debe estar entre 0.0 y 1.0''"

definition detail_division :: string where
  "detail_division =
     ''El punto de divisi'' @ [CHR 0xF3] @ ''n no permite crear dos im''
       @ [CHR 0xE1] @ ''genes v'' @ [CHR 0xE1] @ ''lidas''"

text \<open>Lines 44 to 60: the split row \<^verbatim>\<open>division_y\<close>; \<open>h\<close> is the local \<^verbatim>\<open>height\<close>.\<close>

definition determine_division_y :: "int \<Rightarrow> int option \<Rightarrow> pyfloat option \<Rightarrow> exc + int" where
  "determine_division_y h split_point split_percentage =
     (case split_point of
        Some sp \<Rightarrow>
          if sp < 0 \<or> sp \<ge> h
          then Inl (HTTPException 400 (detail_split_point h))
          else Inr sp
      | None \<Rightarrow>
          (case split_percentage of
             Some pct \<Rightarrow>
               if float_less pct (Finite 0) \<or> float_less (Finite 1) pct
               then Inl (HTTPException 400 detail_percentage)
               else (case int_mul_float h pct of
                       Inl e \<Rightarrow> Inl (Error e)
                     | Inr x \<Rightarrow>
                         (case int_of_float x of
                            Inl e \<Rightarrow> Inl (Error e)
                          | Inr y \<Rightarrow> Inr y))
           | None \<Rightarrow> Inr (h div 2)))"

text \<open>Lines 41 to 74: the size, the split row, its check, and the two crops.\<close>

definition split_image :: "image \<Rightarrow> int option \<Rightarrow> pyfloat option \<Rightarrow> exc + image \<times> image" where
  "split_image im split_point split_percentage =
     (case determine_division_y (height im) split_point split_percentage of
        Inl e \<Rightarrow> Inl e
      | Inr division_y \<Rightarrow>
          if division_y \<le> 0 \<or> division_y \<ge> height im
          then Inl (HTTPException 400 detail_division)
          else Inr (crop im (0, 0, width im, division_y),
                    crop im (0, division_y, width im, height im)))"

text \<open>Line 83: the format both parts are saved in.\<close>

definition format_name :: "upload_file \<Rightarrow> string" where
  "format_name file = (if content_type file = Some ''image/png'' then ''PNG'' else ''JPEG'')"

text \<open>Lines 95 and 96: the name of the archive.\<close>

definition zip_filename :: "env \<Rightarrow> upload_file \<Rightarrow> string" where
  "zip_filename e file =
     (case filename file of
        None \<Rightarrow> ''image''
      | Some n \<Rightarrow> if n = [] then ''image'' else splitext_root e n) @ ''_cropped.zip''"

text \<open>Lines 36 to 102: the body of the \<^verbatim>\<open>try\<close> block.\<close>

definition crop_image_try :: "env \<Rightarrow> upload_file \<Rightarrow> int option \<Rightarrow> pyfloat option \<Rightarrow> exc + streaming_response" where
  "crop_image_try e file split_point split_percentage =
     (case image_open e (file_data file) of
        Inl err \<Rightarrow> Inl (Error err)
      | Inr im \<Rightarrow>
          (case split_image im split_point split_percentage of
             Inl x \<Rightarrow> Inl x
           | Inr (image_header, image_body) \<Rightarrow>
               (case image_save e image_header (format_name file) of
                  Inl err \<Rightarrow> Inl (Error err)
                | Inr header_bytes \<Rightarrow>
                    (case image_save e image_body (format_name file) of
                       Inl err \<Rightarrow> Inl (Error err)
                     | Inr body_bytes \<Rightarrow>
                         Inr \<lparr>body =
                                writestr ZIP_DEFLATED (localtime e 1)
                                  (writestr ZIP_DEFLATED (localtime e 0) []
                                     (''image_header.'' @ lower (format_name file)) header_bytes)
                                  (''image_body.'' @ lower (format_name file)) body_bytes,
                              media_type = ''application/zip'',
                              headers = [(''Content-Disposition'',
                                          ''attachment; filename='' @ zip_filename e file)]\<rparr>))))"

text \<open>
  Lines 29 to 105: the handler. The two checks of the content type are outside the
  \<^verbatim>\<open>try\<close> block; \<^verbatim>\<open>startswith\<close> on a content type that is \<^verbatim>\<open>None\<close> raises
  \<^verbatim>\<open>AttributeError\<close> there. \<^verbatim>\<open>except Exception\<close> catches every exception of the block,
  the \<^verbatim>\<open>HTTPException\<close>s raised in it included, and raises an \<^verbatim>\<open>HTTPException\<close> of status
  500 in its place.
\<close>

definition accepted_types :: "string list" where
  "accepted_types = [''image/png'', ''image/jpeg'', ''image/jpg'']"

definition crop_image :: "env \<Rightarrow> upload_file \<Rightarrow> int option \<Rightarrow> pyfloat option \<Rightarrow> exc + streaming_response" where
  "crop_image e file split_point split_percentage =
     (case content_type file of
        None \<Rightarrow>
          Inl (Error (PyError ''AttributeError''
                 ([CHR 0x27] @ ''NoneType'' @ [CHR 0x27] @ '' object has no attribute ''
                    @ [CHR 0x27] @ ''startswith'' @ [CHR 0x27])))
      | Some ct \<Rightarrow>
          if \<not> startswith ct ''image/'' then Inl (HTTPException 400 detail_not_image)
          else if ct \<notin> set accepted_types then Inl (HTTPException 400 detail_not_png_jpg)
          else (case crop_image_try e file split_point split_percentage of
                  Inl x \<Rightarrow> Inl (HTTPException 500 (''Error procesando la imagen: '' @ exc_str e x))
                | Inr response \<Rightarrow> Inr response))"

text \<open>
  What the client receives: the framework answers an \<^verbatim>\<open>HTTPException\<close> with its status
  code, any other exception with status 500, and a returned response with status 200.
\<close>

definition http_status :: "exc + streaming_response \<Rightarrow> int" where
  "http_status r = (case r of Inl (HTTPException s d) \<Rightarrow> s | Inl (Error err) \<Rightarrow> 500 | Inr response \<Rightarrow> 200)"

text \<open>The names and the data of the entries of an archive, without the time stamps.\<close>

definition archive_contents :: "zip_entry list \<Rightarrow> (string \<times> bytes) list" where
  "archive_contents z = map (\<lambda>en. (entry_name en, entry_data en)) z"

subsection \<open>A concrete environment\<close>

text \<open>
  An environment for concrete runs: the one byte \<open>1\<close> decodes to an RGB image of 8
  columns and 10 rows, the one byte \<open>2\<close> to an image of 8 columns and 1 row, any other
  payload is not an image; an image is encoded as one byte per row.
\<close>

definition example_image :: "int \<Rightarrow> image" where
  "example_image h = \<lparr>mode = ''RGB'', width = 8, height = h, getpixel = (\<lambda>p. [0, 0, 0])\<rparr>"

definition example_env :: env where
  "example_env =
     \<lparr>image_open = (\<lambda>data. if data = [1] then Inr (example_image 10)
                             else if data = [2] then Inr (example_image 1)
                             else Inl (PyError ''UnidentifiedImageError'' ''cannot identify image file'')),
      image_save = (\<lambda>im fmt. Inr (replicate (nat (height im)) 0)),
      localtime = (\<lambda>k. (2024, 1, 1, 0, 0, 2 * k)),
      splitext_root = (\<lambda>n. takeWhile (\<lambda>c. c \<noteq> CHR ''.'') n),
      http_exception_str = (\<lambda>s d. str_int s @ '': '' @ d)\<rparr>"

definition example_file :: "string \<Rightarrow> bytes \<Rightarrow> upload_file" where
  "example_file ct data = \<lparr>filename = Some ''photo.png'', content_type = Some ct, file_data = data\<rparr>"

section \<open>Properties\<close>

subsection \<open>Auxiliary facts\<close>





lemma accepted_startswith: "ct \<in> set accepted_types \<Longrightarrow> startswith ct ''image/''"
  by (auto simp: accepted_types_def startswith_def)

lemma crop_image_accepted:
  "content_type file = Some ct \<Longrightarrow> ct \<in> set accepted_types \<Longrightarrow>
   crop_image e file sp pct =
     (case crop_image_try e file sp pct of
        Inl x \<Rightarrow> Inl (HTTPException 500 (''Error procesando la imagen: '' @ exc_str e x))
      | Inr response \<Rightarrow> Inr response)"
  by (simp add: crop_image_def accepted_startswith)

lemma rejected_type:
  assumes "content_type file = Some ct" and "ct \<notin> set accepted_types"
  shows "crop_image e file sp pct =
           Inl (HTTPException 400 (if startswith ct ''image/'' then detail_not_png_jpg else detail_not_image))"
  using assms by (simp add: crop_image_def)

lemma crop_image_InrD:
  "crop_image e file sp pct = Inr r \<Longrightarrow>
   crop_image_try e file sp pct = Inr r \<and> (\<exists>ct. content_type file = Some ct \<and> ct \<in> set accepted_types)"
  by (auto simp: crop_image_def split: option.splits if_splits sum.splits)

lemma split_image_InrD:
  "split_image im sp pct = Inr (hdr, bdy) \<Longrightarrow>
   \<exists>y. determine_division_y (height im) sp pct = Inr y \<and> 0 < y \<and> y < height im \<and>
       hdr = crop im (0, 0, width im, y) \<and> bdy = crop im (0, y, width im, height im)"
  by (auto simp: split_image_def split: sum.splits if_splits)

lemma split_image_degenerate:
  "determine_division_y (height im) sp pct = Inr y \<Longrightarrow> y \<le> 0 \<or> height im \<le> y \<Longrightarrow>
   split_image im sp pct = Inl (HTTPException 400 detail_division)"
  by (auto simp: split_image_def)

lemma crop_image_try_InrD:
  "crop_image_try e file sp pct = Inr r \<Longrightarrow>
   \<exists>im hdr bdy hb bb. image_open e (file_data file) = Inr im \<and> split_image im sp pct = Inr (hdr, bdy) \<and>
     image_save e hdr (format_name file) = Inr hb \<and> image_save e bdy (format_name file) = Inr bb \<and>
     body r = [\<lparr>entry_name = ''image_header.'' @ lower (format_name file), entry_time = localtime e 0,
                 entry_compression = ZIP_DEFLATED, entry_data = hb\<rparr>,
               \<lparr>entry_name = ''image_body.'' @ lower (format_name file), entry_time = localtime e 1,
                 entry_compression = ZIP_DEFLATED, entry_data = bb\<rparr>]"
  by (auto simp: crop_image_try_def writestr_def split: sum.splits prod.splits)

lemma crop_image_try_split_error:
  "image_open e (file_data file) = Inr im \<Longrightarrow> split_image im sp pct = Inl x \<Longrightarrow>
   crop_image_try e file sp pct = Inl x"
  by (simp add: crop_image_try_def)

text \<open>Whatever the processing block raises, the client receives status 500.\<close>

lemma caught_exception_status:
  "content_type file = Some ct \<Longrightarrow> ct \<in> set accepted_types \<Longrightarrow>
   crop_image_try e file sp pct = Inl x \<Longrightarrow>
   crop_image e file sp pct = Inl (HTTPException 500 (''Error procesando la imagen: '' @ exc_str e x)) \<and>
   http_status (crop_image e file sp pct) = 500"
  by (simp add: crop_image_accepted http_status_def)

lemma lower_PNG: "lower ''PNG'' = ''png''"
  by code_simp

lemma lower_JPEG: "lower ''JPEG'' = ''jpeg''"
  by code_simp

lemma lower_format_name:
  "lower (format_name file) = (if content_type file = Some ''image/png'' then ''png'' else ''jpeg'')"
  using lower_PNG lower_JPEG by (simp add: format_name_def)

lemma exc_str_localtime: "exc_str (e\<lparr>localtime := t\<rparr>) x = exc_str e x"
  by (simp add: exc_str_def split: exc.splits py_error.splits)

lemma zip_filename_localtime: "zip_filename (e\<lparr>localtime := t\<rparr>) file = zip_filename e file"
  by (simp add: zip_filename_def split: option.splits)

lemma crop_image_try_localtime:
  "map_sum id (\<lambda>r. (archive_contents (body r), media_type r, headers r))
     (crop_image_try (e\<lparr>localtime := t1\<rparr>) file sp pct) =
   map_sum id (\<lambda>r. (archive_contents (body r), media_type r, headers r))
     (crop_image_try (e\<lparr>localtime := t2\<rparr>) file sp pct)"
  by (simp add: crop_image_try_def zip_filename_localtime writestr_def archive_contents_def
      split: sum.splits prod.splits)

lemma detail_neq:
  "detail_split_point h \<noteq> detail_percentage" "detail_division \<noteq> detail_percentage"
  by (simp_all add: detail_split_point_def detail_percentage_def detail_division_def)


lemmas example_defs =
  crop_image_def crop_image_try_def split_image_def determine_division_y_def
  example_env_def example_file_def example_image_def startswith_def accepted_types_def
  exc_str_def format_name_def writestr_def crop_def lower_PNG lower_JPEG zip_filename_def

subsection \<open>Dimensions of the two slices\<close>

text \<open>
  C1. Whenever the handler returns a response for an image of width \<open>w\<close> and height \<open>h\<close>,
  a split row \<open>y\<close> was resolved, the two archive entries are the encodings of the header
  and the body slice, the header has exactly \<open>y\<close> rows and the body exactly \<open>h - y\<close>,
  the two heights add up to \<open>h\<close>, each is at least 1, and both slices have width \<open>w\<close>.
\<close>

theorem slices_cover_image:
  assumes "crop_image e file split_point split_percentage = Inr response"
    and "image_open e (file_data file) = Inr im"
  shows "\<exists>y image_header image_body.
           determine_division_y (height im) split_point split_percentage = Inr y \<and>
           split_image im split_point split_percentage = Inr (image_header, image_body) \<and>
           image_save e image_header (format_name file) = Inr (entry_data (body response ! 0)) \<and>
           image_save e image_body (format_name file) = Inr (entry_data (body response ! 1)) \<and>
           height image_header = y \<and> height image_body = height im - y \<and>
           height image_header + height image_body = height im \<and>
           1 \<le> height image_header \<and> 1 \<le> height image_body \<and>
           width image_header = width im \<and> width image_body = width im"
proof -
  from assms(1) have t: "crop_image_try e file split_point split_percentage = Inr response"
    by (simp add: crop_image_InrD)
  from crop_image_try_InrD [OF t] assms(2) obtain hdr bdy hb bb where
    s: "split_image im split_point split_percentage = Inr (hdr, bdy)" and
    h: "image_save e hdr (format_name file) = Inr hb" and
    b: "image_save e bdy (format_name file) = Inr bb" and
    r: "body response = [\<lparr>entry_name = ''image_header.'' @ lower (format_name file), entry_time = localtime e 0,
                 entry_compression = ZIP_DEFLATED, entry_data = hb\<rparr>,
               \<lparr>entry_name = ''image_body.'' @ lower (format_name file), entry_time = localtime e 1,
                 entry_compression = ZIP_DEFLATED, entry_data = bb\<rparr>]"
    by auto
  from split_image_InrD [OF s] obtain y where
    y: "determine_division_y (height im) split_point split_percentage = Inr y" "0 < y" "y < height im"
       "hdr = crop im (0, 0, width im, y)" "bdy = crop im (0, y, width im, height im)"
    by auto
  have "height hdr = y" "height bdy = height im - y" "width hdr = width im" "width bdy = width im"
    using y(4,5) by (simp_all add: crop_def)
  with y(1,2,3) s h b r show ?thesis by simp
qed

theorem slices_cover_image_witness:
  "\<exists>response. crop_image example_env (example_file ''image/png'' [1]) (Some 3) None = Inr response \<and>
     image_open example_env (file_data (example_file ''image/png'' [1])) = Inr (example_image 10) \<and>
     (\<exists>image_header image_body.
        split_image (example_image 10) (Some 3) None = Inr (image_header, image_body) \<and>
        height image_header = 3 \<and> height image_body = 7 \<and>
        width image_header = 8 \<and> width image_body = 8)"
proof -
  let ?r = "crop_image example_env (example_file ''image/png'' [1]) (Some 3) None"
  have h1: "?r = Inr (projr ?r)" by (simp add: example_defs)
  have h2: "image_open example_env (file_data (example_file ''image/png'' [1])) = Inr (example_image 10)"
    by (simp add: example_defs)
  have d: "determine_division_y (height (example_image 10)) (Some 3) None = Inr 3"
    by (simp add: example_defs)
  from slices_cover_image [OF h1 h2] d h1 h2 show ?thesis
    by (auto simp: example_image_def)
qed

subsection \<open>Resolution of the split row\<close>



subsection \<open>Range errors\<close>

text \<open>
  What lines 44 to 57 raise inside the processing block, for a payload that decodes to
  an image of height \<open>h\<close>: for a \<^verbatim>\<open>split_point\<close> below 0 or not below \<open>h\<close>, the
  \<^verbatim>\<open>HTTPException\<close> of status 400 whose text names the range from 0 to \<open>h - 1\<close>; without a
  \<^verbatim>\<open>split_point\<close>, for a \<^verbatim>\<open>split_percentage\<close> below 0.0 or above 1.0, the
  \<^verbatim>\<open>HTTPException\<close> of status 400 whose text names the range from 0.0 to 1.0.
\<close>

lemma out_of_range_raised:
  assumes "image_open e (file_data file) = Inr im"
  shows "(sp < 0 \<or> height im \<le> sp \<longrightarrow>
            crop_image_try e file (Some sp) pct = Inl (HTTPException 400 (detail_split_point (height im)))) \<and>
         (float_less p (Finite 0) \<or> float_less (Finite 1) p \<longrightarrow>
            crop_image_try e file None (Some p) = Inl (HTTPException 400 detail_percentage)) \<and>
         (\<exists>pre post. detail_split_point (height im) = pre @ ''entre 0 y '' @ str_int (height im - 1) @ post) \<and>
         detail_percentage = ''El porcentaje debe estar entre 0.0 y 1.0''"
proof (intro conjI impI)
  assume "sp < 0 \<or> height im \<le> sp"
  then have "split_image im (Some sp) pct = Inl (HTTPException 400 (detail_split_point (height im)))"
    by (auto simp: split_image_def determine_division_y_def)
  with assms show "crop_image_try e file (Some sp) pct = Inl (HTTPException 400 (detail_split_point (height im)))"
    by (rule crop_image_try_split_error)
next
  assume "float_less p (Finite 0) \<or> float_less (Finite 1) p"
  then have "split_image im None (Some p) = Inl (HTTPException 400 detail_percentage)"
    by (auto simp: split_image_def determine_division_y_def)
  with assms show "crop_image_try e file None (Some p) = Inl (HTTPException 400 detail_percentage)"
    by (rule crop_image_try_split_error)
next
  have "detail_split_point (height im) =
          (''El punto de divisi'' @ [CHR 0xF3] @ ''n debe estar '') @ ''entre 0 y ''
            @ str_int (height im - 1) @ ('' p'' @ [CHR 0xED] @ ''xeles'')"
    by (simp add: detail_split_point_def)
  then show "\<exists>pre post. detail_split_point (height im) = pre @ ''entre 0 y '' @ str_int (height im - 1) @ post"
    by blast
next
  show "detail_percentage = ''El porcentaje debe estar entre 0.0 y 1.0''"
    by (simp add: detail_percentage_def)
qed

text \<open>
  What the client receives: the \<^verbatim>\<open>except Exception\<close> of line 104 catches both, so every
  such request on an accepted content type is answered with status 500, never 400.
\<close>

lemma out_of_range_status:
  assumes "content_type file = Some ct" and "ct \<in> set accepted_types"
    and "image_open e (file_data file) = Inr im"
  shows "(sp < 0 \<or> height im \<le> sp \<longrightarrow>
            crop_image e file (Some sp) pct =
              Inl (HTTPException 500 (''Error procesando la imagen: ''
                     @ http_exception_str e 400 (detail_split_point (height im)))) \<and>
            http_status (crop_image e file (Some sp) pct) = 500) \<and>
         (float_less p (Finite 0) \<or> float_less (Finite 1) p \<longrightarrow>
            crop_image e file None (Some p) =
              Inl (HTTPException 500 (''Error procesando la imagen: ''
                     @ http_exception_str e 400 detail_percentage)) \<and>
            http_status (crop_image e file None (Some p)) = 500)"
proof (intro conjI impI)
  assume a: "sp < 0 \<or> height im \<le> sp"
  with out_of_range_raised [OF assms(3), of sp pct p]
  have r: "crop_image_try e file (Some sp) pct = Inl (HTTPException 400 (detail_split_point (height im)))"
    by blast
  from caught_exception_status [OF assms(1,2) r]
  show "crop_image e file (Some sp) pct =
          Inl (HTTPException 500 (''Error procesando la imagen: ''
                 @ http_exception_str e 400 (detail_split_point (height im))))"
    and "http_status (crop_image e file (Some sp) pct) = 500"
    by (simp_all add: exc_str_def http_status_def)
next
  assume a: "float_less p (Finite 0) \<or> float_less (Finite 1) p"
  with out_of_range_raised [OF assms(3), of sp pct p]
  have r: "crop_image_try e file None (Some p) = Inl (HTTPException 400 detail_percentage)"
    by blast
  from caught_exception_status [OF assms(1,2) r]
  show "crop_image e file None (Some p) =
          Inl (HTTPException 500 (''Error procesando la imagen: ''
                 @ http_exception_str e 400 detail_percentage))"
    and "http_status (crop_image e file None (Some p)) = 500"
    by (simp_all add: exc_str_def http_status_def)
qed

text \<open>
  C3. The runs of the handler on an image of 10 rows with \<^verbatim>\<open>split_point = 10\<close>, and with
  \<^verbatim>\<open>split_percentage = 1.5\<close> and no \<^verbatim>\<open>split_point\<close>: lines 46 and 53 raise the
  \<^verbatim>\<open>HTTPException\<close>s of status 400 that state the valid range, the \<^verbatim>\<open>except Exception\<close>
  of line 104 catches them, and the client receives status 500 in both runs, where
  the claim requires a client error of status 400.
\<close>

theorem out_of_range_delivered_as_500:
  "crop_image example_env (example_file ''image/png'' [1]) (Some 10) None =
     Inl (HTTPException 500 (''Error procesando la imagen: '' @ ''400: '' @ detail_split_point 10)) \<and>
   http_status (crop_image example_env (example_file ''image/png'' [1]) (Some 10) None) = 500 \<and>
   float_less (Finite 1) (Finite (3 / 2)) \<and>
   crop_image example_env (example_file ''image/png'' [1]) None (Some (Finite (3 / 2))) =
     Inl (HTTPException 500 (''Error procesando la imagen: '' @ ''400: '' @ detail_percentage)) \<and>
   http_status (crop_image example_env (example_file ''image/png'' [1]) None (Some (Finite (3 / 2)))) = 500"
  by (simp add: example_defs http_status_def str_int_def)

subsection \<open>The degenerate split\<close>

text \<open>
  C4. The run of the handler on an image of 10 rows with \<^verbatim>\<open>split_point = 0\<close>: the row
  0 is resolved, line 64 raises the \<^verbatim>\<open>HTTPException\<close> of status 400, the
  \<^verbatim>\<open>except Exception\<close> of line 104 catches it, and the client receives status 500.
  (By \<open>split_image_degenerate\<close>, \<open>crop_image_try_split_error\<close> and
  \<open>caught_exception_status\<close> this is so for every decoded image and every resolved
  row that is 0 or less, or the height or more.)
\<close>

theorem degenerate_split_delivered_as_500:
  "crop_image example_env (example_file ''image/png'' [1]) (Some 0) None =
     Inl (HTTPException 500 (''Error procesando la imagen: '' @ ''400: '' @ detail_division)) \<and>
   http_status (crop_image example_env (example_file ''image/png'' [1]) (Some 0) None) = 500"
  by (simp add: example_defs http_status_def str_int_def)

subsection \<open>The declared content type\<close>

text \<open>
  C5. The run of the handler on an upload whose content type is \<^verbatim>\<open>None\<close>: line 29
  raises \<^verbatim>\<open>AttributeError\<close> outside the \<^verbatim>\<open>try\<close> block, which the framework answers with
  status 500. (For a content type that is a string, \<open>rejected_type\<close> and
  \<open>crop_image_accepted\<close> show that it is accepted exactly when it is one of the three
  image types, and refused with status 400 before the payload is read otherwise.)
\<close>

theorem missing_content_type_raises:
  "crop_image example_env \<lparr>filename = Some ''photo.png'', content_type = None, file_data = [1]\<rparr> (Some 5) None =
     Inl (Error (PyError ''AttributeError''
            ([CHR 0x27] @ ''NoneType'' @ [CHR 0x27] @ '' object has no attribute ''
               @ [CHR 0x27] @ ''startswith'' @ [CHR 0x27]))) \<and>
   http_status (crop_image example_env \<lparr>filename = Some ''photo.png'', content_type = None, file_data = [1]\<rparr>
     (Some 5) None) = 500"
  by (simp add: crop_image_def http_status_def)

subsection \<open>The entries of the archive\<close>

text \<open>
  C6. Every response carries an archive of exactly two entries, named
  \<^verbatim>\<open>image_header.png\<close> and \<^verbatim>\<open>image_body.png\<close> when the declared type is \<^verbatim>\<open>image/png\<close>, and
  \<^verbatim>\<open>image_header.jpeg\<close> and \<^verbatim>\<open>image_body.jpeg\<close> when it is \<^verbatim>\<open>image/jpeg\<close> or \<^verbatim>\<open>image/jpg\<close>;
  the data of the entries are the header and the body slice, both saved in the format
  \<^verbatim>\<open>PNG\<close> in the first case and \<^verbatim>\<open>JPEG\<close> in the second.
\<close>

theorem archive_entries:
  assumes "crop_image e file sp pct = Inr response"
  shows "(content_type file = Some ''image/png'' \<or> content_type file = Some ''image/jpeg'' \<or>
          content_type file = Some ''image/jpg'') \<and>
         map entry_name (body response) =
           (if content_type file = Some ''image/png''
            then [''image_header.png'', ''image_body.png'']
            else [''image_header.jpeg'', ''image_body.jpeg'']) \<and>
         (\<exists>im image_header image_body.
            image_open e (file_data file) = Inr im \<and>
            split_image im sp pct = Inr (image_header, image_body) \<and>
            map (\<lambda>en. Inr (entry_data en)) (body response) =
              [image_save e image_header (if content_type file = Some ''image/png'' then ''PNG'' else ''JPEG''),
               image_save e image_body (if content_type file = Some ''image/png'' then ''PNG'' else ''JPEG'')])"
proof -
  from crop_image_InrD [OF assms] obtain ct where
    t: "crop_image_try e file sp pct = Inr response" and
    ct: "content_type file = Some ct" "ct \<in> set accepted_types"
    by blast
  from crop_image_try_InrD [OF t] obtain im hdr bdy hb bb where
    i: "image_open e (file_data file) = Inr im" and
    s: "split_image im sp pct = Inr (hdr, bdy)" and
    h: "image_save e hdr (format_name file) = Inr hb" and
    b: "image_save e bdy (format_name file) = Inr bb" and
    r: "body response = [\<lparr>entry_name = ''image_header.'' @ lower (format_name file), entry_time = localtime e 0,
                 entry_compression = ZIP_DEFLATED, entry_data = hb\<rparr>,
               \<lparr>entry_name = ''image_body.'' @ lower (format_name file), entry_time = localtime e 1,
                 entry_compression = ZIP_DEFLATED, entry_data = bb\<rparr>]"
    by blast
  have 1: "content_type file = Some ''image/png'' \<or> content_type file = Some ''image/jpeg'' \<or>
          content_type file = Some ''image/jpg''"
    using ct by (auto simp: accepted_types_def)
  have 2: "map entry_name (body response) =
           (if content_type file = Some ''image/png''
            then [''image_header.png'', ''image_body.png'']
            else [''image_header.jpeg'', ''image_body.jpeg''])"
    using r by (simp add: lower_format_name)
  have 3: "map (\<lambda>en. Inr (entry_data en)) (body response) =
              [image_save e hdr (if content_type file = Some ''image/png'' then ''PNG'' else ''JPEG''),
               image_save e bdy (if content_type file = Some ''image/png'' then ''PNG'' else ''JPEG'')]"
    using r h b by (simp add: format_name_def)
  from i s 3 have 4: "\<exists>im image_header image_body.
            image_open e (file_data file) = Inr im \<and>
            split_image im sp pct = Inr (image_header, image_body) \<and>
            map (\<lambda>en. Inr (entry_data en)) (body response) =
              [image_save e image_header (if content_type file = Some ''image/png'' then ''PNG'' else ''JPEG''),
               image_save e image_body (if content_type file = Some ''image/png'' then ''PNG'' else ''JPEG'')]"
    by (intro exI [of _ im] exI [of _ hdr] exI [of _ bdy] conjI)
  show ?thesis by (rule conjI [OF 1 conjI [OF 2 4]])
qed

theorem archive_entries_witness:
  "\<not> isl (crop_image example_env (example_file ''image/jpg'' [1]) None None) \<and>
   map entry_name (body (projr (crop_image example_env (example_file ''image/jpg'' [1]) None None))) =
     [''image_header.jpeg'', ''image_body.jpeg'']"
proof -
  let ?r = "crop_image example_env (example_file ''image/jpg'' [1]) None None"
  have h: "?r = Inr (projr ?r)" by (simp add: example_defs)
  have c: "content_type (example_file ''image/jpg'' [1]) \<noteq> Some ''image/png''"
    by (simp add: example_file_def)
  from archive_entries [OF h] c have
    "map entry_name (body (projr ?r)) = [''image_header.jpeg'', ''image_body.jpeg'']"
    by simp
  moreover from h have "\<not> isl ?r" by (metis sum.disc(2))
  ultimately show ?thesis by simp
qed

subsection \<open>Decoding comes before the range checks\<close>

text \<open>
  C7, as amended. The content type is checked before the payload is decoded: a declared
  type that is not accepted is answered with status 400 whatever the payload is. The
  ranges of the split parameters are checked after decoding: when the declared type
  is accepted and the payload is not an image, the answer is the decoding error with
  status 500, whatever the split parameters are.
\<close>

theorem decode_error_whatever_the_split:
  assumes "content_type file = Some ct"
  shows "(ct \<notin> set accepted_types \<longrightarrow>
            crop_image e file sp pct =
              Inl (HTTPException 400
                     (if startswith ct ''image/'' then detail_not_png_jpg else detail_not_image))) \<and>
         (ct \<in> set accepted_types \<and> image_open e (file_data file) = Inl (PyError c m) \<longrightarrow>
            crop_image e file sp pct = Inl (HTTPException 500 (''Error procesando la imagen: '' @ m)))"
  using assms
  by (auto simp: rejected_type crop_image_accepted crop_image_try_def exc_str_def)

theorem decode_error_whatever_the_split_witness:
  "content_type (example_file ''image/png'' [3]) = Some ''image/png'' \<and>
   ''image/png'' \<in> set accepted_types \<and>
   image_open example_env (file_data (example_file ''image/png'' [3])) =
     Inl (PyError ''UnidentifiedImageError'' ''cannot identify image file'') \<and>
   crop_image example_env (example_file ''image/png'' [3]) (Some 77) (Some (Finite 9)) =
     Inl (HTTPException 500 ''Error procesando la imagen: cannot identify image file'') \<and>
   content_type (example_file ''text/plain'' [3]) = Some ''text/plain'' \<and>
   ''text/plain'' \<notin> set accepted_types \<and>
   crop_image example_env (example_file ''text/plain'' [3]) (Some 77) (Some (Finite 9)) =
     Inl (HTTPException 400 detail_not_image)"
proof -
  have a: "content_type (example_file ''image/png'' [3]) = Some ''image/png''"
    and b: "content_type (example_file ''text/plain'' [3]) = Some ''text/plain''"
    by (simp_all add: example_file_def)
  have c: "image_open example_env (file_data (example_file ''image/png'' [3])) =
     Inl (PyError ''UnidentifiedImageError'' ''cannot identify image file'')"
    by (simp add: example_env_def example_file_def)
  from decode_error_whatever_the_split [OF a, of example_env "Some 77" "Some (Finite 9)"
      "''UnidentifiedImageError''" "''cannot identify image file''"]
    decode_error_whatever_the_split [OF b, of example_env "Some 77" "Some (Finite 9)"]
    a b c show ?thesis
    by (simp add: accepted_types_def startswith_def)
qed

text \<open>
  C7 as stated fails: a payload that is not an image, sent with \<^verbatim>\<open>split_point = -1\<close>, is
  answered with the decoding error, not with the range error.
\<close>

theorem range_check_after_decode:
  "crop_image example_env (example_file ''image/png'' [3]) (Some (- 1)) None =
     Inl (HTTPException 500 ''Error procesando la imagen: cannot identify image file'') \<and>
   http_status (crop_image example_env (example_file ''image/png'' [3]) (Some (- 1)) None) = 500"
  by (simp add: example_defs http_status_def)

subsection \<open>Two runs of the same request\<close>

text \<open>
  C8. Two runs of the handler on the same upload and the same split parameters, with
  the same decoder and encoder, at any two times of the clock: both raise the same
  exception, or both return responses with the same media type, the same headers and
  archives whose entries have the same names and the same data. (The time stamps of
  the entries are those of each run.)
\<close>

theorem archive_contents_deterministic:
  "map_sum id (\<lambda>r. (archive_contents (body r), media_type r, headers r))
     (crop_image (e\<lparr>localtime := t1\<rparr>) file sp pct) =
   map_sum id (\<lambda>r. (archive_contents (body r), media_type r, headers r))
     (crop_image (e\<lparr>localtime := t2\<rparr>) file sp pct)"
proof (cases "\<exists>ct. content_type file = Some ct \<and> ct \<in> set accepted_types")
  case False
  then show ?thesis
    by (auto simp: crop_image_def accepted_startswith split: option.splits)
next
  case True
  then obtain ct where ct: "content_type file = Some ct" "ct \<in> set accepted_types"
    by blast
  show ?thesis
    using crop_image_try_localtime [of t1 e "file" sp pct t2]
    by (cases "crop_image_try (e\<lparr>localtime := t1\<rparr>) file sp pct";
        cases "crop_image_try (e\<lparr>localtime := t2\<rparr>) file sp pct")
      (simp_all add: crop_image_accepted [OF ct] exc_str_localtime)
qed

theorem archive_contents_deterministic_witness:
  "archive_contents (body (projr (crop_image (example_env\<lparr>localtime := (\<lambda>k. (2024, 1, 1, 0, 0, 0))\<rparr>)
      (example_file ''image/png'' [1]) (Some 4) None))) =
   archive_contents (body (projr (crop_image (example_env\<lparr>localtime := (\<lambda>k. (2031, 7, 9, 12, 30, 58))\<rparr>)
      (example_file ''image/png'' [1]) (Some 4) None))) \<and>
   map entry_time (body (projr (crop_image (example_env\<lparr>localtime := (\<lambda>k. (2024, 1, 1, 0, 0, 0))\<rparr>)
      (example_file ''image/png'' [1]) (Some 4) None))) \<noteq>
   map entry_time (body (projr (crop_image (example_env\<lparr>localtime := (\<lambda>k. (2031, 7, 9, 12, 30, 58))\<rparr>)
      (example_file ''image/png'' [1]) (Some 4) None)))"
  using archive_contents_deterministic [of "\<lambda>k. (2024, 1, 1, 0, 0, 0)" example_env
      "example_file ''image/png'' [1]" "Some 4" None "\<lambda>k. (2031, 7, 9, 12, 30, 58)"]
  by (simp add: example_defs archive_contents_def)

subsection \<open>A given split point makes the percentage irrelevant\<close>

text \<open>
  C9. When \<^verbatim>\<open>split_point\<close> is given, the outcome of the handler is the same for any two
  values of \<^verbatim>\<open>split_percentage\<close> (absent, in range or out of range), and the range
  error of the percentage is never raised.
\<close>

theorem split_point_ignores_percentage:
  "crop_image e file (Some k) p1 = crop_image e file (Some k) p2 \<and>
   crop_image_try e file (Some k) p1 \<noteq> Inl (HTTPException 400 detail_percentage)"
proof
  have s: "split_image im (Some k) p1 = split_image im (Some k) p2" for im
    by (simp add: split_image_def determine_division_y_def)
  have "crop_image_try e file (Some k) p1 = crop_image_try e file (Some k) p2"
  proof (cases "image_open e (file_data file)")
    case (Inl err)
    then show ?thesis by (simp add: crop_image_try_def)
  next
    case (Inr im)
    then show ?thesis by (simp add: crop_image_try_def s [of im])
  qed
  then show "crop_image e file (Some k) p1 = crop_image e file (Some k) p2"
    by (simp add: crop_image_def split: option.splits)
next
  show "crop_image_try e file (Some k) p1 \<noteq> Inl (HTTPException 400 detail_percentage)"
    by (auto simp: crop_image_try_def split_image_def determine_division_y_def detail_neq
        split: sum.splits prod.splits if_splits)
qed

theorem split_point_ignores_percentage_witness:
  "float_less (Finite 1) (Finite (29 / 4)) \<and>
   crop_image example_env (example_file ''image/png'' [1]) (Some 5) (Some (Finite (29 / 4))) =
   crop_image example_env (example_file ''image/png'' [1]) (Some 5) None"
  using split_point_ignores_percentage [of example_env "example_file ''image/png'' [1]" 5
      "Some (Finite (29 / 4))" None]
  by simp

subsection \<open>Images of height 1\<close>

text \<open>
  C10. For an image of height 1 every request fails, whatever the split parameters
  are: whenever a row is resolved, the check of line 63 refuses it, and the default
  row is \<open>1 div 2 = 0\<close>.
\<close>

theorem height_one_always_fails:
  assumes "image_open e (file_data file) = Inr im" and "height im = 1"
  shows "isl (crop_image e file sp pct) \<and> isl (split_image im sp pct) \<and>
         (\<forall>y. determine_division_y (height im) sp pct = Inr y \<longrightarrow>
              split_image im sp pct = Inl (HTTPException 400 detail_division)) \<and>
         determine_division_y (height im) None None = Inr 0"
proof -
  have d: "split_image im sp pct = Inl (HTTPException 400 detail_division)"
    if "determine_division_y (height im) sp pct = Inr y" for y
  proof -
    from assms(2) have "y \<le> 0 \<or> height im \<le> y" by linarith
    with that show ?thesis by (rule split_image_degenerate)
  qed
  have s: "isl (split_image im sp pct)"
  proof (cases "determine_division_y (height im) sp pct")
    case (Inl x)
    then show ?thesis by (simp add: split_image_def)
  next
    case (Inr y)
    then show ?thesis by (simp add: d)
  qed
  then obtain x where "split_image im sp pct = Inl x"
    by (cases "split_image im sp pct") auto
  with assms(1) have "crop_image_try e file sp pct = Inl x"
    by (rule crop_image_try_split_error)
  then have c: "isl (crop_image e file sp pct)"
    by (simp add: crop_image_def split: option.splits)
  have "determine_division_y (height im) None None = Inr 0"
    using assms(2) by (simp add: determine_division_y_def)
  with c s d show ?thesis by blast
qed

theorem height_one_always_fails_witness:
  "image_open example_env (file_data (example_file ''image/png'' [2])) = Inr (example_image 1) \<and>
   height (example_image 1) = 1 \<and>
   isl (crop_image example_env (example_file ''image/png'' [2]) None None) \<and>
   isl (crop_image example_env (example_file ''image/png'' [2]) (Some 0) None) \<and>
   isl (crop_image example_env (example_file ''image/png'' [2]) None (Some (Finite (1 / 2))))"
proof -
  have h: "image_open example_env (file_data (example_file ''image/png'' [2])) = Inr (example_image 1)"
    by (simp add: example_env_def example_file_def)
  have g: "height (example_image 1) = 1"
    by (simp add: example_image_def)
  from height_one_always_fails [OF h g, of None None]
    height_one_always_fails [OF h g, of "Some 0" None]
    height_one_always_fails [OF h g, of None "Some (Finite (1 / 2))"] h g
  show ?thesis by simp
qed

end
